theory Spec2Isabelle
  imports Complex_Main
begin

section \<open>Errors and the world the scripts act on\<close>

text \<open>
  The module \<^verbatim>\<open>src/data_creation/dataset_creation.py\<close> is a pandas script. Every
  exception that one of its statements can raise is a value of \<open>py_error\<close>; a function
  that can raise returns \<open>py_error + 'a\<close>, with \<open>Inl\<close> for the exception.
\<close>

datatype py_error =
    IndexError
  | AssertionError
  | KeyError string
  | ValueError
  | FileNotFoundError
  | OutOfBoundsDatetime

section \<open>Epoch Converter: \<^verbatim>\<open>clr_datetime_to_unix_time\<close>\<close>

text \<open>
  A pandas scalar time is either \<^verbatim>\<open>pd.NaT\<close> or an instant. With \<^verbatim>\<open>unit='s'\<close> the
  constructor \<^verbatim>\<open>pd.Timestamp(n, unit='s')\<close> builds the instant \<open>n\<close> whole seconds past
  the Unix epoch, so \<open>Timestamp n\<close> carries that count.

  pandas keeps an instant in a fixed-width integer, so its constructor raises
  \<^verbatim>\<open>OutOfBoundsDatetime\<close> outside a finite range of seconds. The range belongs to the
  library (it is not in this repository and differs between pandas releases), so the
  embedding takes it as the parameter \<open>pd_limits\<close>.
\<close>

datatype pd_timestamp = NaT | Timestamp int

record pd_limits =
  ts_min :: int
  ts_max :: int

definition representable :: "pd_limits \<Rightarrow> int \<Rightarrow> bool" where
  "representable lims n = (ts_min lims \<le> n \<and> n \<le> ts_max lims)"

definition pd_Timestamp :: "pd_limits \<Rightarrow> int \<Rightarrow> py_error + pd_timestamp" where
  "pd_Timestamp lims n =
     (if representable lims n then Inr (Timestamp n) else Inl OutOfBoundsDatetime)"

text \<open>The limits of a signed 64-bit count of seconds: no pandas instant lies outside them.\<close>

definition int64_limits :: pd_limits where
  "int64_limits = \<lparr>ts_min = - (2 ^ 63), ts_max = 2 ^ 63 - 1\<rparr>"

definition CLR_UNIX_EPOCH_DIFF_TICKS :: int where
  "CLR_UNIX_EPOCH_DIFF_TICKS = 621355968000000000"

text \<open>
  \<^verbatim>\<open>pd.isna(clr_datetime)\<close> is the \<open>None\<close> case. Python's \<^verbatim>\<open>//\<close> on integers is floor
  division, which is \<open>div\<close> on \<open>int\<close>.
\<close>

definition clr_datetime_to_unix_time :: "pd_limits \<Rightarrow> int option \<Rightarrow> py_error + pd_timestamp" where
  "clr_datetime_to_unix_time lims clr_datetime =
     (case clr_datetime of
        None \<Rightarrow> Inr NaT
      | Some t \<Rightarrow>
          (let unix_timestamp = (t - CLR_UNIX_EPOCH_DIFF_TICKS) div 10000000
           in pd_Timestamp lims unix_timestamp))"

section \<open>Tables and the files they are stored in\<close>

text \<open>
  A table (a pandas \<^verbatim>\<open>DataFrame\<close> with the default row index \<open>0, 1, ...\<close>) whose key
  column is \<^verbatim>\<open>timestamp\<close>: \<open>columns\<close> names the value columns that follow the key,
  and each row is the key with one cell per value column. A cell is \<open>None\<close> where
  pandas holds NaN. The row index is the position in the list, so renumbering the
  rows (\<^verbatim>\<open>reset_index(drop=True)\<close>) is the identity on this representation.
\<close>

record 'v frame =
  columns :: "string list"
  rows :: "(int \<times> 'v option list) list"

text \<open>
  The table \<^verbatim>\<open>process_dataframe\<close> writes: the key column is gone and a
  \<^verbatim>\<open>datetime\<close> column stands after the value columns.
\<close>

record 'v nframe =
  ncolumns :: "string list"
  nrows :: "('v option list \<times> pd_timestamp) list"

datatype 'v csv = Merged "'v frame" | Normalized "'v nframe"

text \<open>
  The part of the outside world the two functions touch: the CSV files they write and
  read back, by path, and the lines printed on standard output. A function that acts
  on the world returns its result (or the exception) with the world it leaves.
\<close>

record 'v world =
  files :: "string \<rightharpoonup> 'v csv"
  stdout :: "string list"

section \<open>Timeline Merger: \<^verbatim>\<open>create_dataframe\<close>\<close>

text \<open>\<^verbatim>\<open>os.path.basename\<close>: what follows the last \<^verbatim>\<open>/\<close>.\<close>

definition basename :: "string \<Rightarrow> string" where
  "basename p = rev (takeWhile (\<lambda>c. c \<noteq> CHR ''/'') (rev p))"

text \<open>
  \<^verbatim>\<open>os.path.splitext(name)[0]\<close> on a name without a separator: the name up to its
  last dot, unless only dots (or nothing) stand before that dot.
\<close>

definition splitext_root :: "string \<Rightarrow> string" where
  "splitext_root name =
     (if CHR ''.'' \<notin> set name then name
      else let root = rev (tl (dropWhile (\<lambda>c. c \<noteq> CHR ''.'') (rev name)))
           in if \<forall>c \<in> set root. c = CHR ''.'' then name else root)"

definition column_name :: "string \<Rightarrow> string" where
  "column_name file = splitext_root (basename file)"

text \<open>
  \<^verbatim>\<open>pd.read_csv(file, header=None, names=['timestamp', column_name])\<close>. An input file
  is its path with its parsed lines, each a tick count and a value or an empty field.
  pandas refuses a list of names with a repetition (\<^verbatim>\<open>ValueError\<close>).
\<close>

definition read_csv_series :: "string \<times> (int \<times> 'v option) list \<Rightarrow> py_error + 'v frame" where
  "read_csv_series file =
     (if column_name (fst file) = ''timestamp'' then Inl ValueError
      else Inr \<lparr>columns = [column_name (fst file)],
                rows = map (\<lambda>(t, v). (t, [v])) (snd file)\<rparr>)"

text \<open>The first loop: it stops at the first file whose reading raises.\<close>

fun load_all :: "(string \<times> (int \<times> 'v option) list) list \<Rightarrow> py_error + 'v frame list" where
  "load_all [] = Inr []"
| "load_all (file # csv_files) =
     (case read_csv_series file of
        Inl e \<Rightarrow> Inl e
      | Inr df \<Rightarrow>
          (case load_all csv_files of
             Inl e \<Rightarrow> Inl e
           | Inr dataframes \<Rightarrow> Inr (df # dataframes)))"

text \<open>
  \<^verbatim>\<open>pd.merge(left, right, on='timestamp', how='outer')\<close>. The keys of the result are
  the keys of either side, in ascending order. Under one key the result pairs every
  left row with every right row of that key; where one side has no row of that key,
  its cells are NaN. A value column whose name occurs on both sides gets the suffix
  \<^verbatim>\<open>_x\<close> on the left and \<^verbatim>\<open>_y\<close> on the right.
\<close>

definition merge_columns :: "string list \<Rightarrow> string list \<Rightarrow> string list" where
  "merge_columns lc rc =
     map (\<lambda>n. if n \<in> set rc then n @ ''_x'' else n) lc
     @ map (\<lambda>n. if n \<in> set lc then n @ ''_y'' else n) rc"

definition rows_of_key :: "int \<Rightarrow> (int \<times> 'v option list) list \<Rightarrow> 'v option list list" where
  "rows_of_key k rs = map snd (filter (\<lambda>r. fst r = k) rs)"

definition join_key ::
  "nat \<Rightarrow> nat \<Rightarrow> (int \<times> 'v option list) list \<Rightarrow> (int \<times> 'v option list) list \<Rightarrow> int
     \<Rightarrow> (int \<times> 'v option list) list" where
  "join_key nl nr ls rs k =
     (let lk = rows_of_key k ls; rk = rows_of_key k rs
      in if lk = [] then map (\<lambda>r. (k, replicate nl None @ r)) rk
         else if rk = [] then map (\<lambda>l. (k, l @ replicate nr None)) lk
         else concat (map (\<lambda>l. map (\<lambda>r. (k, l @ r)) rk) lk))"

definition pd_merge_outer :: "'v frame \<Rightarrow> 'v frame \<Rightarrow> 'v frame" where
  "pd_merge_outer left right =
     \<lparr>columns = merge_columns (columns left) (columns right),
      rows = concat (map (join_key (length (columns left)) (length (columns right))
                            (rows left) (rows right))
                         (sort (remdups (map fst (rows left) @ map fst (rows right)))))\<rparr>"

text \<open>
  \<^verbatim>\<open>sort_values(by='timestamp')\<close>: the rows in ascending order of the key. (pandas
  does not fix the order of rows with equal keys; the model keeps their order.)
\<close>

definition sort_values :: "'v frame \<Rightarrow> 'v frame" where
  "sort_values df = df\<lparr>rows := sort_key fst (rows df)\<rparr>"

text \<open>
  \<^verbatim>\<open>create_dataframe\<close>. The argument \<open>csv_files\<close> is what \<^verbatim>\<open>glob\<close> returns for the
  folder, each path with the content of the file. \<^verbatim>\<open>dataframes[0]\<close> raises
  \<^verbatim>\<open>IndexError\<close> on the empty list; the second loop is a left fold of the merge.
\<close>

definition create_dataframe ::
  "(string \<times> (int \<times> 'v option) list) list \<Rightarrow> string \<Rightarrow> 'v world
     \<Rightarrow> (py_error + unit) \<times> 'v world" where
  "create_dataframe csv_files output_file w =
     (case load_all csv_files of
        Inl e \<Rightarrow> (Inl e, w)
      | Inr [] \<Rightarrow> (Inl IndexError, w)
      | Inr (df0 # dfs) \<Rightarrow>
          (let merged_df = sort_values (foldl pd_merge_outer df0 dfs)
           in (Inr (),
               w\<lparr>files := (files w)(output_file \<mapsto> Merged merged_df),
                 stdout := stdout w @ [''Concatenated CSV file saved to '' @ output_file]\<rparr>)))"

section \<open>Valid-Range Trimmer and Timestamp Normalizer: \<^verbatim>\<open>process_dataframe\<close>\<close>

text \<open>
  \<^verbatim>\<open>df[pred_column].notna()\<close>: one flag per row. The key column is never NaN; a name
  that is no column raises \<^verbatim>\<open>KeyError\<close>. A row shorter than the header reads as NaN,
  as pandas fills it.
\<close>

fun index_of :: "'a \<Rightarrow> 'a list \<Rightarrow> nat option" where
  "index_of x [] = None"
| "index_of x (y # ys) = (if x = y then Some 0 else map_option Suc (index_of x ys))"

definition cell :: "'v option list \<Rightarrow> nat \<Rightarrow> 'v option" where
  "cell vs i = (if i < length vs then vs ! i else None)"

definition column_notna :: "'v frame \<Rightarrow> string \<Rightarrow> py_error + bool list" where
  "column_notna df pred_column =
     (if pred_column = ''timestamp'' then Inr (map (\<lambda>r. True) (rows df))
      else case index_of pred_column (columns df) of
             None \<Rightarrow> Inl (KeyError pred_column)
           | Some i \<Rightarrow> Inr (map (\<lambda>r. cell (snd r) i \<noteq> None) (rows df)))"

text \<open>
  \<^verbatim>\<open>first_valid_index()\<close> and \<^verbatim>\<open>last_valid_index()\<close>: the row label of the first and of
  the last value that is not NaN, \<open>None\<close> when there is none.
\<close>

fun first_valid_index :: "bool list \<Rightarrow> nat option" where
  "first_valid_index [] = None"
| "first_valid_index (b # bs) = (if b then Some 0 else map_option Suc (first_valid_index bs))"

definition last_valid_index :: "bool list \<Rightarrow> nat option" where
  "last_valid_index bs =
     map_option (\<lambda>i. length bs - 1 - i) (first_valid_index (rev bs))"

text \<open>
  Lines 70 to 82 of \<^verbatim>\<open>process_dataframe\<close>: the two guarded slices. \<^verbatim>\<open>df.loc[i:]\<close>
  keeps the rows labelled \<open>i\<close> and later, \<^verbatim>\<open>df.loc[:j]\<close> those up to and including
  \<open>j\<close>; the second lookup is made on the table the first slice leaves.
\<close>

definition valid_range_trim :: "'v frame \<Rightarrow> string \<Rightarrow> py_error + 'v frame" where
  "valid_range_trim df pred_column =
     (case column_notna df pred_column of
        Inl e \<Rightarrow> Inl e
      | Inr flags \<Rightarrow>
          (let df1 = (case first_valid_index flags of
                        Some i \<Rightarrow> df\<lparr>rows := drop i (rows df)\<rparr>
                      | None \<Rightarrow> df)
           in case column_notna df1 pred_column of
                Inl e \<Rightarrow> Inl e
              | Inr flags1 \<Rightarrow>
                  Inr (case last_valid_index flags1 of
                         Some j \<Rightarrow> df1\<lparr>rows := take (Suc j) (rows df1)\<rparr>
                       | None \<Rightarrow> df1)))"

text \<open>
  Lines 85 to 88: the \<^verbatim>\<open>datetime\<close> column is the converter applied to every key (the
  first key whose conversion raises ends the run), and the key column is dropped.
\<close>

fun apply_converter ::
  "pd_limits \<Rightarrow> (int \<times> 'v option list) list \<Rightarrow> py_error + ('v option list \<times> pd_timestamp) list" where
  "apply_converter lims [] = Inr []"
| "apply_converter lims (r # rs) =
     (case clr_datetime_to_unix_time lims (Some (fst r)) of
        Inl e \<Rightarrow> Inl e
      | Inr d \<Rightarrow>
          (case apply_converter lims rs of
             Inl e \<Rightarrow> Inl e
           | Inr ds \<Rightarrow> Inr ((snd r, d) # ds)))"

definition normalize :: "pd_limits \<Rightarrow> 'v frame \<Rightarrow> py_error + 'v nframe" where
  "normalize lims df =
     (case apply_converter lims (rows df) of
        Inl e \<Rightarrow> Inl e
      | Inr ds \<Rightarrow> Inr \<lparr>ncolumns = columns df, nrows = ds\<rparr>)"

text \<open>\<^verbatim>\<open>len(df.columns)\<close> of a table read back from a file.\<close>

fun csv_width :: "'v csv \<Rightarrow> nat" where
  "csv_width (Merged df) = length (columns df) + 1"
| "csv_width (Normalized ndf) = length (ncolumns ndf) + 1"

text \<open>
  \<^verbatim>\<open>process_dataframe\<close>. The argument \<open>csv_files\<close> is again what \<^verbatim>\<open>glob\<close> returns for
  the folder; only its length is used. A file already normalized has no
  \<^verbatim>\<open>timestamp\<close> column, so after the column check and the lookup of the target
  column the run ends at \<^verbatim>\<open>df['timestamp']\<close>. The function has no \<^verbatim>\<open>print\<close>, no
  warning and no logging call: it leaves \<open>stdout\<close> as it was.
\<close>

definition process_dataframe ::
  "pd_limits \<Rightarrow> (string \<times> (int \<times> 'v option) list) list \<Rightarrow> string \<Rightarrow> string \<Rightarrow> 'v world
     \<Rightarrow> (py_error + unit) \<times> 'v world" where
  "process_dataframe lims csv_files filename pred_column w =
     (case files w filename of
        None \<Rightarrow> (Inl FileNotFoundError, w)
      | Some content \<Rightarrow>
          (let num_of_columns = length csv_files
           in if csv_width content \<noteq> num_of_columns + 1 then (Inl AssertionError, w)
              else case content of
                     Normalized ndf \<Rightarrow>
                       (if pred_column \<in> set (ncolumns ndf) \<or> pred_column = ''datetime''
                        then (Inl (KeyError ''timestamp''), w)
                        else (Inl (KeyError pred_column), w))
                   | Merged df \<Rightarrow>
                       (case valid_range_trim df pred_column of
                          Inl e \<Rightarrow> (Inl e, w)
                        | Inr df' \<Rightarrow>
                            (case normalize lims df' of
                               Inl e \<Rightarrow> (Inl e, w)
                             | Inr ndf \<Rightarrow>
                                 (Inr (),
                                  w\<lparr>files := (files w)(filename \<mapsto> Normalized ndf)\<rparr>)))))"

section \<open>Aggregator: \<^verbatim>\<open>df.resample(aggregation).agg(['mean', 'std'])\<close>\<close>

text \<open>
  The aggregation loop of the module reads the normalized table, indexes it by
  \<^verbatim>\<open>datetime\<close>, turns the two coordinate columns into numbers and resamples. The
  table that reaches \<^verbatim>\<open>resample\<close> is numeric: each row is its instant, in whole
  seconds past the Unix epoch, with one cell per channel.

  \<^verbatim>\<open>resample\<close> and \<^verbatim>\<open>agg\<close> are pandas operations, modelled here from their documented
  behaviour. Bins are left-closed, of a fixed width \<open>w\<close> seconds (\<open>180\<close> for
  \<^verbatim>\<open>'3min'\<close>, \<open>600\<close> for \<^verbatim>\<open>'10min'\<close>), aligned to midnight of the day of the earliest
  row; there is one output row for every bin from the one of the earliest row to the
  one of the latest row, whether or not a row falls into it. \<^verbatim>\<open>mean\<close> and \<^verbatim>\<open>std\<close>
  skip NaN; \<^verbatim>\<open>std\<close> divides by the number of values less one. Arithmetic is that of
  the real numbers: the rounding of binary floating point is not modelled.
\<close>

definition aggregation_vals :: "int list" where
  "aggregation_vals = [180, 600]"

definition start_day :: "int \<Rightarrow> int" where
  "start_day t = (t div 86400) * 86400"

definition bucket_start :: "int \<Rightarrow> int \<Rightarrow> int \<Rightarrow> int" where
  "bucket_start origin w t = origin + ((t - origin) div w) * w"

definition bucket_values ::
  "int \<Rightarrow> int \<Rightarrow> (int \<times> real option list) list \<Rightarrow> int \<Rightarrow> nat \<Rightarrow> real list" where
  "bucket_values origin w table b i =
     concat (map (\<lambda>r. if bucket_start origin w (fst r) = b
                       then (case cell (snd r) i of None \<Rightarrow> [] | Some v \<Rightarrow> [v])
                       else [])
                 table)"

definition agg_mean :: "real list \<Rightarrow> real option" where
  "agg_mean vs = (if vs = [] then None else Some (sum_list vs / real (length vs)))"

definition agg_std :: "real list \<Rightarrow> real option" where
  "agg_std vs =
     (if length vs < 2 then None
      else let m = sum_list vs / real (length vs)
           in Some (sqrt (sum_list (map (\<lambda>v. (v - m) ^ 2) vs) / real (length vs - 1))))"

definition resample_agg ::
  "int \<Rightarrow> nat \<Rightarrow> (int \<times> real option list) list
     \<Rightarrow> (int \<times> (real option \<times> real option) list) list" where
  "resample_agg w ncols table =
     (case map fst table of
        [] \<Rightarrow> []
      | t # ts \<Rightarrow>
          (let origin = start_day (foldl min t ts);
               first = bucket_start origin w (foldl min t ts);
               last = bucket_start origin w (foldl max t ts)
           in map (\<lambda>k. (first + int k * w,
                        map (\<lambda>i. (agg_mean (bucket_values origin w table (first + int k * w) i),
                                  agg_std (bucket_values origin w table (first + int k * w) i)))
                            [0..<ncols]))
                  [0..<nat ((last - first) div w) + 1]))"

text \<open>
  The values that contribute to the bin starting at \<open>b\<close>, in the words of the
  specification: the values of channel \<open>i\<close> that are not missing, in the rows whose
  instant lies in \<open>[b, b + w)\<close>.
\<close>

definition contributing ::
  "int \<Rightarrow> (int \<times> real option list) list \<Rightarrow> int \<Rightarrow> nat \<Rightarrow> real list" where
  "contributing w table b i =
     concat (map (\<lambda>r. if b \<le> fst r \<and> fst r < b + w
                       then (case cell (snd r) i of None \<Rightarrow> [] | Some v \<Rightarrow> [v])
                       else [])
                 table)"

section \<open>Coordinate strings: \<^verbatim>\<open>dms_string_to_decimal\<close>\<close>

text \<open>
  \<^verbatim>\<open>float(s)\<close> on a string in plain decimal notation: an optional sign, digits, and
  an optional point followed by digits, with at least one digit in all. On such a
  string the result is the number written (as a real number: rounding to binary
  floating point is not modelled). Python accepts further notations (an exponent,
  \<^verbatim>\<open>inf\<close>, \<^verbatim>\<open>nan\<close>, underscores, surrounding blanks); coordinate strings do not use
  them, and the model answers \<^verbatim>\<open>ValueError\<close> for everything that is not plain.
\<close>

definition is_digit :: "char \<Rightarrow> bool" where
  "is_digit c = (c \<in> set ''0123456789'')"

definition digit_value :: "char \<Rightarrow> nat" where
  "digit_value c = (case index_of c ''0123456789'' of Some d \<Rightarrow> d | None \<Rightarrow> 0)"

definition digits_value :: "string \<Rightarrow> nat" where
  "digits_value ds = foldl (\<lambda>a c. 10 * a + digit_value c) 0 ds"

definition unsigned_decimal :: "string \<Rightarrow> real option" where
  "unsigned_decimal s =
     (let ip = takeWhile (\<lambda>c. c \<noteq> CHR ''.'') s;
          rest = dropWhile (\<lambda>c. c \<noteq> CHR ''.'') s;
          fp = (if rest = [] then [] else tl rest)
      in if list_all is_digit ip \<and> list_all is_digit fp \<and> ip @ fp \<noteq> []
         then Some (real (digits_value ip) + real (digits_value fp) / 10 ^ length fp)
         else None)"

definition py_float :: "string \<Rightarrow> py_error + real" where
  "py_float s =
     (case (case s of
              c # cs \<Rightarrow> (if c = CHR ''-'' then map_option uminus (unsigned_decimal cs)
                         else if c = CHR ''+'' then unsigned_decimal cs
                         else unsigned_decimal s)
            | [] \<Rightarrow> None) of
        None \<Rightarrow> Inl ValueError
      | Some x \<Rightarrow> Inr x)"

text \<open>
  \<^verbatim>\<open>dms_string_to_decimal\<close>. The slices are \<^verbatim>\<open>s[:2]\<close>, \<^verbatim>\<open>s[2:-1]\<close> and \<^verbatim>\<open>s[-1]\<close>; the last
  raises \<^verbatim>\<open>IndexError\<close> on the empty string. The result \<open>None\<close> is \<^verbatim>\<open>np.nan\<close>.
\<close>

definition dms_string_to_decimal :: "string option \<Rightarrow> py_error + real option" where
  "dms_string_to_decimal dms_string =
     (case dms_string of
        None \<Rightarrow> Inr None
      | Some s \<Rightarrow>
          (case py_float (take 2 s) of
             Inl e \<Rightarrow> Inl e
           | Inr degrees \<Rightarrow>
               (case py_float (drop 2 (butlast s)) of
                  Inl e \<Rightarrow> Inl e
                | Inr minutes \<Rightarrow>
                    (if s = [] then Inl IndexError
                     else let direction = last s;
                              decimal_degrees = degrees + minutes / 60
                          in if direction \<in> set ''SW'' then Inr (Some (- decimal_degrees))
                             else Inr (Some decimal_degrees)))))"

section \<open>Properties of the Epoch Converter\<close>



text \<open>
  Claim C5. The converter reads nothing but its argument and returns nothing but its
  result (it takes and returns no world state), so it is a pure function. It does not
  return an instant for every non-negative tick count: the only statement of its body
  that can raise is the constructor of the instant, and it does so exactly when the
  whole-second count is outside the library's range. For a non-negative tick count
  inside the range the converter returns an instant.
\<close>

theorem clr_datetime_to_unix_time_total_in_range:
  assumes "0 \<le> t"
  shows "(if representable lims ((t - 621355968000000000) div 10000000)
          then \<exists>n. clr_datetime_to_unix_time lims (Some t) = Inr (Timestamp n)
          else clr_datetime_to_unix_time lims (Some t) = Inl OutOfBoundsDatetime)"
  by (simp add: clr_datetime_to_unix_time_def CLR_UNIX_EPOCH_DIFF_TICKS_def pd_Timestamp_def)

theorem clr_datetime_to_unix_time_total_in_range_witness:
  "(0::int) \<le> 0
   \<and> representable int64_limits ((0 - 621355968000000000) div 10000000)
   \<and> (\<exists>n. clr_datetime_to_unix_time int64_limits (Some 0) = Inr (Timestamp n))"
proof -
  have h: "(0::int) \<le> 0" by simp
  have r: "representable int64_limits ((0 - 621355968000000000) div 10000000)"
    by (simp add: representable_def int64_limits_def)
  show ?thesis
    using h r clr_datetime_to_unix_time_total_in_range [OF h, of int64_limits] by simp
qed

text \<open>
  The tick count \<open>10^30\<close> is a non-negative integer, and its whole-second count does
  not fit any 64-bit instant: the converter raises.
\<close>

theorem clr_datetime_to_unix_time_raises_counterexample:
  "(0::int) \<le> 1000000000000000000000000000000
   \<and> clr_datetime_to_unix_time int64_limits (Some 1000000000000000000000000000000)
       = Inl OutOfBoundsDatetime"
  by (simp add: clr_datetime_to_unix_time_def CLR_UNIX_EPOCH_DIFF_TICKS_def pd_Timestamp_def
      representable_def int64_limits_def)

section \<open>Properties of the Timeline Merger\<close>

lemma rows_of_key_empty: "(rows_of_key k rs = []) = (k \<notin> fst ` set rs)"
  by (auto simp: rows_of_key_def filter_empty_conv)

lemma join_key_keys:
  "fst ` set (join_key nl nr ls rs k) = (if k \<in> fst ` set ls \<union> fst ` set rs then {k} else {})"
proof (cases "rows_of_key k ls = []")
  case True
  note l = this
  show ?thesis
  proof (cases "rows_of_key k rs = []")
    case True
    with l show ?thesis
      by (simp add: join_key_def Let_def rows_of_key_empty [symmetric])
  next
    case False
    with l have "fst ` set (join_key nl nr ls rs k) = {k}"
      by (auto simp: join_key_def Let_def image_iff neq_Nil_conv)
    moreover from False have "k \<in> fst ` set rs" by (simp add: rows_of_key_empty)
    ultimately show ?thesis by simp
  qed
next
  case False
  then have in_l: "k \<in> fst ` set ls" by (simp add: rows_of_key_empty)
  from False have "fst ` set (join_key nl nr ls rs k) = {k}"
    by (cases "rows_of_key k rs = []")
      (auto simp: join_key_def Let_def image_iff neq_Nil_conv)
  with in_l show ?thesis by simp
qed

lemma pd_merge_outer_keys:
  "fst ` set (rows (pd_merge_outer left right)) = fst ` set (rows left) \<union> fst ` set (rows right)"
proof -
  let ?U = "fst ` set (rows left) \<union> fst ` set (rows right)"
  have ks: "set (sort (remdups (map fst (rows left) @ map fst (rows right)))) = ?U"
    by simp
  have "fst ` set (rows (pd_merge_outer left right))
      = (\<Union>k \<in> ?U. fst ` set (join_key (length (columns left)) (length (columns right))
                                   (rows left) (rows right) k))"
    unfolding pd_merge_outer_def
    by (simp only: frame.simps set_concat set_map ks image_UN image_image)
  also have "\<dots> = (\<Union>k \<in> ?U. if k \<in> ?U then {k} else {})"
    by (simp only: join_key_keys)
  also have "\<dots> = ?U" by auto
  finally show ?thesis .
qed

lemma foldl_pd_merge_outer_keys:
  "fst ` set (rows (foldl pd_merge_outer df dfs))
     = fst ` set (rows df) \<union> (\<Union>x \<in> set dfs. fst ` set (rows x))"
  by (induction dfs arbitrary: df) (auto simp: pd_merge_outer_keys)

lemma read_csv_series_keys:
  "read_csv_series f = Inr df \<Longrightarrow> fst ` set (rows df) = fst ` set (snd f)"
  by (force simp: read_csv_series_def split: if_splits)

lemma load_all_keys:
  "load_all csv_files = Inr dfs \<Longrightarrow>
     (\<Union>x \<in> set dfs. fst ` set (rows x)) = (\<Union>f \<in> set csv_files. fst ` set (snd f))"
proof (induction csv_files arbitrary: dfs)
  case Nil
  then show ?case by simp
next
  case (Cons f csv_files)
  from Cons.prems obtain df rest where
    df: "read_csv_series f = Inr df" and rest: "load_all csv_files = Inr rest"
    and dfs: "dfs = df # rest"
    by (auto split: sum.splits)
  from Cons.IH [OF rest] read_csv_series_keys [OF df] dfs show ?case by simp
qed

lemma load_all_succeeds:
  "''timestamp'' \<notin> set (map (column_name \<circ> fst) csv_files) \<Longrightarrow>
     \<exists>dfs. load_all csv_files = Inr dfs \<and> length dfs = length csv_files"
  by (induction csv_files) (auto simp: read_csv_series_def)

lemma create_dataframe_succeeds:
  assumes "csv_files \<noteq> []" and "''timestamp'' \<notin> set (map (column_name \<circ> fst) csv_files)"
  shows "fst (create_dataframe csv_files output_file w) = Inr ()"
proof -
  from load_all_succeeds [OF assms(2)] obtain dfs where
    dfs: "load_all csv_files = Inr dfs" "length dfs = length csv_files"
    by blast
  with assms(1) obtain df0 rest where "dfs = df0 # rest"
    by (cases dfs) auto
  with dfs(1) show ?thesis
    by (simp add: create_dataframe_def Let_def)
qed

lemma create_dataframe_result:
  assumes "fst (create_dataframe csv_files output_file w) = Inr ()"
  shows "\<exists>df. files (snd (create_dataframe csv_files output_file w)) output_file = Some (Merged df)
            \<and> fst ` set (rows df) = (\<Union>f \<in> set csv_files. fst ` set (snd f))
            \<and> sorted (map fst (rows df))"
proof -
  from assms obtain df0 dfs where
    loaded: "load_all csv_files = Inr (df0 # dfs)"
    by (auto simp: create_dataframe_def Let_def split: sum.splits list.splits)
  let ?df = "sort_values (foldl pd_merge_outer df0 dfs)"
  have "fst ` set (rows ?df) = fst ` set (rows (foldl pd_merge_outer df0 dfs))"
    by (simp add: sort_values_def)
  also have "\<dots> = (\<Union>x \<in> set (df0 # dfs). fst ` set (rows x))"
    by (simp add: foldl_pd_merge_outer_keys)
  also have "\<dots> = (\<Union>f \<in> set csv_files. fst ` set (snd f))"
    by (rule load_all_keys [OF loaded])
  finally have keys: "fst ` set (rows ?df) = (\<Union>f \<in> set csv_files. fst ` set (snd f))" .
  have srt: "sorted (map fst (rows ?df))"
    by (simp add: sort_values_def)
  from loaded have "files (snd (create_dataframe csv_files output_file w)) output_file
      = Some (Merged ?df)"
    by (simp add: create_dataframe_def Let_def)
  with keys srt show ?thesis by blast
qed

lemmas merge_eval = create_dataframe_def read_csv_series_def column_name_def basename_def
  splitext_root_def sort_values_def pd_merge_outer_def merge_columns_def join_key_def
  rows_of_key_def Let_def

text \<open>
  Claim C2. Whenever \<^verbatim>\<open>create_dataframe\<close> writes a table, the set of timestamps of
  its rows is exactly the union of the timestamp sets of the input series, so no
  timestamp is lost (a row counts whether or not its value is missing) and none is
  invented, and the rows are in ascending order of timestamp. It does write a table
  whenever there is at least one input file, the derived channel names differ from
  each other and none of them is \<^verbatim>\<open>timestamp\<close>.
\<close>

theorem create_dataframe_timestamps:
  "(csv_files \<noteq> [] \<and> distinct (map (column_name \<circ> fst) csv_files)
      \<and> ''timestamp'' \<notin> set (map (column_name \<circ> fst) csv_files)
    \<longrightarrow> fst (create_dataframe csv_files output_file w) = Inr ())
   \<and> (fst (create_dataframe csv_files output_file w) = Inr ()
    \<longrightarrow> (\<exists>df. files (snd (create_dataframe csv_files output_file w)) output_file
                 = Some (Merged df)
             \<and> fst ` set (rows df) = (\<Union>f \<in> set csv_files. fst ` set (snd f))
             \<and> sorted (map fst (rows df))))"
  using create_dataframe_succeeds [of csv_files output_file w]
    create_dataframe_result [of csv_files output_file w]
  by blast

text \<open>
  The two channels of the specification's scenario A: \<open>A\<close> sampled at \<open>0, 10, 20\<close>
  and \<open>B\<close> at \<open>5, 15\<close>.
\<close>

theorem create_dataframe_timestamps_witness:
  "fst (create_dataframe
          [(''raw_data/A.csv'', [(0, Some 1), (10, Some 2), (20, Some 3)]),
           (''raw_data/B.csv'', [(5, Some 10), (15, Some (20::real))])]
          ''./data/final.csv'' \<lparr>files = Map.empty, stdout = []\<rparr>) = Inr ()
   \<and> (\<exists>df. files (snd (create_dataframe
          [(''raw_data/A.csv'', [(0, Some 1), (10, Some 2), (20, Some 3)]),
           (''raw_data/B.csv'', [(5, Some 10), (15, Some (20::real))])]
          ''./data/final.csv'' \<lparr>files = Map.empty, stdout = []\<rparr>)) ''./data/final.csv''
              = Some (Merged df)
          \<and> fst ` set (rows df) = {0, 5, 10, 15, 20}
          \<and> sorted (map fst (rows df)))"
proof -
  let ?A = "(''raw_data/A.csv'', [(0::int, Some (1::real)), (10, Some 2), (20, Some 3)])"
  let ?B = "(''raw_data/B.csv'', [(5::int, Some (10::real)), (15, Some 20)])"
  let ?w = "\<lparr>files = Map.empty, stdout = []\<rparr> :: real world"
  have names: "[?A, ?B] \<noteq> [] \<and> distinct (map (column_name \<circ> fst) [?A, ?B])
      \<and> ''timestamp'' \<notin> set (map (column_name \<circ> fst) [?A, ?B])"
    by (simp add: column_name_def basename_def splitext_root_def)
  have keys: "(\<Union>f \<in> set [?A, ?B]. fst ` set (snd f)) = {0, 5, 10, 15, 20}"
    by auto
  from create_dataframe_timestamps [of "[?A, ?B]" "''./data/final.csv''" ?w] names
  have ok: "fst (create_dataframe [?A, ?B] ''./data/final.csv'' ?w) = Inr ()"
    by blast
  with create_dataframe_timestamps [of "[?A, ?B]" "''./data/final.csv''" ?w]
  have "\<exists>df. files (snd (create_dataframe [?A, ?B] ''./data/final.csv'' ?w)) ''./data/final.csv''
              = Some (Merged df)
          \<and> fst ` set (rows df) = (\<Union>f \<in> set [?A, ?B]. fst ` set (snd f))
          \<and> sorted (map fst (rows df))"
    by blast
  with ok show ?thesis
    unfolding keys by blast
qed




text \<open>
  Claim C9. With no input file, \<^verbatim>\<open>create_dataframe\<close> raises \<^verbatim>\<open>IndexError\<close> (from
  \<^verbatim>\<open>dataframes[0]\<close>) and leaves the world as it found it: no file is written and
  nothing is printed. There is no result for the case of zero series.
\<close>

theorem create_dataframe_no_input:
  "create_dataframe [] output_file w = (Inl IndexError, w)"
  by (simp add: create_dataframe_def)

section \<open>Properties of the Valid-Range Trimmer\<close>

lemma first_valid_index_None: "(first_valid_index bs = None) = (\<forall>b \<in> set bs. \<not> b)"
  by (induction bs) auto

lemma first_valid_index_Some:
  "first_valid_index bs = Some i \<Longrightarrow> i < length bs \<and> bs ! i \<and> (\<forall>j < i. \<not> bs ! j)"
proof (induction bs arbitrary: i)
  case Nil
  then show ?case by simp
next
  case (Cons b bs)
  show ?case
  proof (cases b)
    case True
    with Cons.prems show ?thesis by simp
  next
    case False
    with Cons.prems obtain k where k: "first_valid_index bs = Some k" "i = Suc k"
      by auto
    from Cons.IH [OF k(1)] False k(2) show ?thesis
      by (auto simp: nth_Cons split: nat.splits)
  qed
qed

lemma first_valid_index_hd: "bs \<noteq> [] \<Longrightarrow> hd bs \<Longrightarrow> first_valid_index bs = Some 0"
  by (cases bs) auto

lemma last_valid_index_None: "(last_valid_index bs = None) = (\<forall>b \<in> set bs. \<not> b)"
  by (simp add: last_valid_index_def first_valid_index_None)

lemma last_valid_index_Some:
  assumes "last_valid_index bs = Some j"
  shows "j < length bs \<and> bs ! j \<and> (\<forall>k. j < k \<and> k < length bs \<longrightarrow> \<not> bs ! k)"
proof -
  from assms obtain i where i: "first_valid_index (rev bs) = Some i" "j = length bs - 1 - i"
    by (auto simp: last_valid_index_def)
  from first_valid_index_Some [OF i(1)]
  have il: "i < length bs" and at: "rev bs ! i" and before: "\<forall>k < i. \<not> rev bs ! k"
    by simp_all
  have j: "j < length bs" using il i(2) by simp
  have "rev bs ! i = bs ! j" using il i(2) by (simp add: rev_nth)
  with at have bj: "bs ! j" by simp
  have "\<not> bs ! k" if "j < k" "k < length bs" for k
  proof -
    have "length bs - 1 - k < i" using that i(2) il by simp
    with before have "\<not> rev bs ! (length bs - 1 - k)" by blast
    moreover have "rev bs ! (length bs - 1 - k) = bs ! k"
      using that by (simp add: rev_nth)
    ultimately show ?thesis by simp
  qed
  with j bj show ?thesis by blast
qed

lemma last_valid_index_last:
  "bs \<noteq> [] \<Longrightarrow> last bs \<Longrightarrow> last_valid_index bs = Some (length bs - 1)"
  by (simp add: last_valid_index_def first_valid_index_hd hd_rev)

text \<open>
  The lookup of the target column depends on the header only: either it raises for
  every list of rows, or it tests every row with one and the same predicate.
\<close>

lemma column_notna_cases:
  "(\<exists>e. \<forall>rs. column_notna (df\<lparr>rows := rs\<rparr>) p = Inl e)
   \<or> (\<exists>g. \<forall>rs. column_notna (df\<lparr>rows := rs\<rparr>) p = Inr (map g rs))"
proof (cases "p = ''timestamp''")
  case True
  then have "\<forall>rs. column_notna (df\<lparr>rows := rs\<rparr>) p = Inr (map (\<lambda>r. True) rs)"
    by (simp add: column_notna_def)
  then show ?thesis by blast
next
  case False
  show ?thesis
  proof (cases "index_of p (columns df)")
    case None
    with False have "\<forall>rs. column_notna (df\<lparr>rows := rs\<rparr>) p = Inl (KeyError p)"
      by (simp add: column_notna_def)
    then show ?thesis by blast
  next
    case (Some i)
    with False
    have "\<forall>rs. column_notna (df\<lparr>rows := rs\<rparr>) p = Inr (map (\<lambda>r. cell (snd r) i \<noteq> None) rs)"
      by (simp add: column_notna_def)
    then show ?thesis by blast
  qed
qed

text \<open>The two slices, on the list of rows: slicing the result again changes nothing.\<close>

lemma trim_rows_stable:
  fixes g :: "'a \<Rightarrow> bool" and rs :: "'a list"
  defines "rs1 \<equiv> (case first_valid_index (map g rs) of Some i \<Rightarrow> drop i rs | None \<Rightarrow> rs)"
  defines "rs2 \<equiv> (case last_valid_index (map g rs1) of Some j \<Rightarrow> take (Suc j) rs1 | None \<Rightarrow> rs1)"
  shows "(case first_valid_index (map g rs2) of Some i \<Rightarrow> drop i rs2 | None \<Rightarrow> rs2) = rs2"
    and "(case last_valid_index (map g rs2) of Some j \<Rightarrow> take (Suc j) rs2 | None \<Rightarrow> rs2) = rs2"
proof -
  have "(case first_valid_index (map g rs2) of Some i \<Rightarrow> drop i rs2 | None \<Rightarrow> rs2) = rs2
      \<and> (case last_valid_index (map g rs2) of Some j \<Rightarrow> take (Suc j) rs2 | None \<Rightarrow> rs2) = rs2"
  proof (cases "first_valid_index (map g rs)")
    case None
    then have none: "\<forall>b \<in> set (map g rs). \<not> b"
      by (simp only: first_valid_index_None)
    from None have r1: "rs1 = rs" by (simp add: rs1_def)
    from none have l: "last_valid_index (map g rs) = None"
      by (simp only: last_valid_index_None)
    with r1 have r2: "rs2 = rs" by (simp add: rs2_def)
    from None l r2 show ?thesis by simp
  next
    case (Some i)
    from first_valid_index_Some [OF Some] have i: "i < length rs" "g (rs ! i)"
      by auto
    from Some have r1: "rs1 = drop i rs" by (simp add: rs1_def)
    with i have ne1: "rs1 \<noteq> []" and hd1: "g (hd rs1)"
      by (simp_all add: hd_drop_conv_nth)
    from ne1 hd1 have "\<not> (\<forall>b \<in> set (map g rs1). \<not> b)"
      by (cases rs1) auto
    then obtain j where j: "last_valid_index (map g rs1) = Some j"
      using last_valid_index_None [of "map g rs1"] by (cases "last_valid_index (map g rs1)") auto
    from last_valid_index_Some [OF j] have jl: "j < length rs1" and gj: "g (rs1 ! j)"
      by auto
    from j have r2: "rs2 = take (Suc j) rs1" by (simp add: rs2_def)
    with jl have ne2: "rs2 \<noteq> []" and len2: "length rs2 = Suc j"
      by auto
    from r2 ne1 have "hd rs2 = hd rs1" by (cases rs1) simp_all
    with hd1 ne2 have f2: "first_valid_index (map g rs2) = Some 0"
      by (simp add: first_valid_index_hd hd_map)
    from r2 jl have "last rs2 = rs1 ! j"
      by (simp add: take_Suc_conv_app_nth)
    with gj ne2 len2 have l2: "last_valid_index (map g rs2) = Some j"
      using last_valid_index_last [of "map g rs2"] by (simp add: last_map)
    from f2 l2 len2 show ?thesis by simp
  qed
  then show "(case first_valid_index (map g rs2) of Some i \<Rightarrow> drop i rs2 | None \<Rightarrow> rs2) = rs2"
    and "(case last_valid_index (map g rs2) of Some j \<Rightarrow> take (Suc j) rs2 | None \<Rightarrow> rs2) = rs2"
    by simp_all
qed

lemma valid_range_trim_rows:
  assumes g: "\<forall>rs. column_notna (df\<lparr>rows := rs\<rparr>) p = Inr (map g rs)"
  shows "valid_range_trim (df\<lparr>rows := rs\<rparr>) p =
     Inr (df\<lparr>rows :=
       (case last_valid_index (map g (case first_valid_index (map g rs) of
                                        Some i \<Rightarrow> drop i rs | None \<Rightarrow> rs)) of
          Some j \<Rightarrow> take (Suc j) (case first_valid_index (map g rs) of
                                    Some i \<Rightarrow> drop i rs | None \<Rightarrow> rs)
        | None \<Rightarrow> (case first_valid_index (map g rs) of
                      Some i \<Rightarrow> drop i rs | None \<Rightarrow> rs))\<rparr>)"
proof -
  let ?rs1 = "case first_valid_index (map g rs) of Some i \<Rightarrow> drop i rs | None \<Rightarrow> rs"
  have d1: "(case first_valid_index (map g rs) of
               Some i \<Rightarrow> df\<lparr>rows := rs\<rparr>\<lparr>rows := drop i (rows (df\<lparr>rows := rs\<rparr>))\<rparr>
             | None \<Rightarrow> df\<lparr>rows := rs\<rparr>) = df\<lparr>rows := ?rs1\<rparr>"
    by (simp split: option.splits)
  have d2: "(case last_valid_index (map g ?rs1) of
               Some j \<Rightarrow> df\<lparr>rows := ?rs1\<rparr>\<lparr>rows := take (Suc j) (rows (df\<lparr>rows := ?rs1\<rparr>))\<rparr>
             | None \<Rightarrow> df\<lparr>rows := ?rs1\<rparr>)
          = df\<lparr>rows := (case last_valid_index (map g ?rs1) of
                           Some j \<Rightarrow> take (Suc j) ?rs1 | None \<Rightarrow> ?rs1)\<rparr>"
    by (simp split: option.splits)
  show ?thesis
    unfolding valid_range_trim_def
    by (simp only: g sum.case Let_def d1 d2)
qed

lemma valid_range_trim_error:
  "valid_range_trim df p = Inl e \<Longrightarrow> e = KeyError p"
  by (auto simp: valid_range_trim_def column_notna_def Let_def
      split: sum.splits option.splits if_splits)

lemma apply_converter_error:
  "apply_converter lims rs = Inl e \<Longrightarrow> e = OutOfBoundsDatetime"
  by (induction rs)
    (auto simp: clr_datetime_to_unix_time_def pd_Timestamp_def Let_def
      split: sum.splits if_splits)

lemma normalize_error: "normalize lims df = Inl e \<Longrightarrow> e = OutOfBoundsDatetime"
  by (auto simp: normalize_def split: sum.splits dest: apply_converter_error)

lemma process_dataframe_stdout:
  "stdout (snd (process_dataframe lims csv_files filename pred_column w)) = stdout w"
  by (simp add: process_dataframe_def Let_def split: option.splits csv.splits sum.splits)

lemmas trim_eval = valid_range_trim_def column_notna_def cell_def last_valid_index_def

lemmas process_eval = process_dataframe_def trim_eval normalize_def
  clr_datetime_to_unix_time_def pd_Timestamp_def representable_def int64_limits_def
  CLR_UNIX_EPOCH_DIFF_TICKS_def

text \<open>
  Claim C4. When the target column exists and none of its values is present, both
  lookups answer \<open>None\<close>, so both guards \<^verbatim>\<open>is not None\<close> skip their slice: the
  trimming returns the table as it was and raises nothing. No warning is given:
  \<^verbatim>\<open>process_dataframe\<close> writes nothing to standard output, whatever its input.
\<close>

theorem valid_range_trim_all_missing:
  assumes "column_notna df pred_column = Inr flags"
    and "\<forall>b \<in> set flags. \<not> b"
  shows "first_valid_index flags = None \<and> last_valid_index flags = None
       \<and> valid_range_trim df pred_column = Inr df
       \<and> stdout (snd (process_dataframe lims csv_files filename pred_column w)) = stdout w"
proof -
  from assms(2) have f: "first_valid_index flags = None"
    by (simp only: first_valid_index_None)
  from assms(2) have l: "last_valid_index flags = None"
    by (simp only: last_valid_index_None)
  from assms(1) f l have "valid_range_trim df pred_column = Inr df"
    by (simp add: valid_range_trim_def)
  with f l show ?thesis by (simp add: process_dataframe_stdout)
qed

theorem valid_range_trim_all_missing_witness:
  "column_notna \<lparr>columns = [''fuelVolumeFlowRate'', ''speed''],
                  rows = [(10, [None, Some (7::real)]), (20, [None, None])]\<rparr>
       ''fuelVolumeFlowRate'' = Inr [False, False]
   \<and> valid_range_trim \<lparr>columns = [''fuelVolumeFlowRate'', ''speed''],
                        rows = [(10, [None, Some (7::real)]), (20, [None, None])]\<rparr>
       ''fuelVolumeFlowRate''
     = Inr \<lparr>columns = [''fuelVolumeFlowRate'', ''speed''],
            rows = [(10, [None, Some 7]), (20, [None, None])]\<rparr>"
proof -
  let ?df = "\<lparr>columns = [''fuelVolumeFlowRate'', ''speed''],
              rows = [(10::int, [None, Some (7::real)]), (20, [None, None])]\<rparr>"
  have c: "column_notna ?df ''fuelVolumeFlowRate'' = Inr [False, False]"
    by (simp add: column_notna_def cell_def)
  have a: "\<forall>b \<in> set [False, False]. \<not> b" by simp
  from valid_range_trim_all_missing [OF c a]
  have "valid_range_trim ?df ''fuelVolumeFlowRate'' = Inr ?df" by blast
  with c show ?thesis by simp
qed

text \<open>
  Two channels on the same two timestamps; the target channel
  \<^verbatim>\<open>fuelVolumeFlowRate\<close> has an empty value field on both. \<^verbatim>\<open>create_dataframe\<close> writes
  the merged table and prints its line; \<^verbatim>\<open>process_dataframe\<close> then ends normally and
  standard output still holds that one line only.
\<close>

theorem process_dataframe_no_warning_counterexample:
  "files (snd (create_dataframe
          [(''raw_data/fuelVolumeFlowRate.csv'',
              [(638000000000000000, None), (638000000010000000, None)]),
           (''raw_data/speed.csv'',
              [(638000000000000000, Some (7::real)), (638000000010000000, None)])]
          ''./data/final.csv'' \<lparr>files = Map.empty, stdout = []\<rparr>)) ''./data/final.csv''
     = Some (Merged \<lparr>columns = [''fuelVolumeFlowRate'', ''speed''],
                     rows = [(638000000000000000, [None, Some 7]),
                             (638000000010000000, [None, None])]\<rparr>)
   \<and> process_dataframe int64_limits
        [(''raw_data/fuelVolumeFlowRate.csv'',
            [(638000000000000000, None), (638000000010000000, None)]),
         (''raw_data/speed.csv'',
            [(638000000000000000, Some (7::real)), (638000000010000000, None)])]
        ''./data/final.csv'' ''fuelVolumeFlowRate''
        (snd (create_dataframe
          [(''raw_data/fuelVolumeFlowRate.csv'',
              [(638000000000000000, None), (638000000010000000, None)]),
           (''raw_data/speed.csv'',
              [(638000000000000000, Some (7::real)), (638000000010000000, None)])]
          ''./data/final.csv'' \<lparr>files = Map.empty, stdout = []\<rparr>))
     = (Inr (),
        \<lparr>files = [''./data/final.csv'' \<mapsto>
                    Normalized \<lparr>ncolumns = [''fuelVolumeFlowRate'', ''speed''],
                                nrows = [([None, Some 7], Timestamp 1664403200),
                                         ([None, None], Timestamp 1664403201)]\<rparr>],
         stdout = [''Concatenated CSV file saved to ./data/final.csv'']\<rparr>)"
  by (simp add: merge_eval process_eval)

text \<open>
  Claim C6. On a file that exists, \<^verbatim>\<open>process_dataframe\<close> raises \<^verbatim>\<open>AssertionError\<close>
  exactly when the number of columns of the table differs from the number of input
  files plus one. When it does, the run ends there: nothing is written. When the
  counts agree, whatever else happens, it is not this failure.
\<close>

theorem process_dataframe_column_count_assertion:
  assumes "files w filename = Some content"
  shows "(fst (process_dataframe lims csv_files filename pred_column w) = Inl AssertionError)
           = (csv_width content \<noteq> length csv_files + 1)
       \<and> (csv_width content \<noteq> length csv_files + 1 \<longrightarrow>
            snd (process_dataframe lims csv_files filename pred_column w) = w)"
proof (cases "csv_width content = length csv_files + 1")
  case False
  with assms show ?thesis by (simp add: process_dataframe_def)
next
  case True
  have "fst (process_dataframe lims csv_files filename pred_column w) \<noteq> Inl AssertionError"
  proof (cases content)
    case (Normalized ndf)
    with assms True show ?thesis by (simp add: process_dataframe_def)
  next
    case (Merged df)
    show ?thesis
    proof (cases "valid_range_trim df pred_column")
      case (Inl e)
      with valid_range_trim_error [OF Inl] assms True Merged show ?thesis
        by (simp add: process_dataframe_def)
    next
      case (Inr df')
      note trimmed = this
      show ?thesis
      proof (cases "normalize lims df'")
        case (Inl e)
        with normalize_error [OF Inl] assms True Merged trimmed show ?thesis
          by (simp add: process_dataframe_def)
      next
        case (Inr ndf)
        with assms True Merged trimmed show ?thesis
          by (simp add: process_dataframe_def)
      qed
    qed
  qed
  with True show ?thesis by simp
qed

text \<open>
  A table of two channels (three columns) in a folder of three input files: the
  assertion fails. In a folder of two input files it does not.
\<close>

theorem process_dataframe_column_count_assertion_witness:
  "fst (process_dataframe int64_limits
          [(''raw_data/a.csv'', []), (''raw_data/b.csv'', []), (''raw_data/c.csv'', [])]
          ''final.csv'' ''a''
          \<lparr>files = [''final.csv'' \<mapsto> Merged \<lparr>columns = [''a'', ''b''],
                                             rows = [(5, [Some (1::real), None])]\<rparr>],
            stdout = []\<rparr>) = Inl AssertionError
   \<and> fst (process_dataframe int64_limits
          [(''raw_data/a.csv'', []), (''raw_data/b.csv'', [])]
          ''final.csv'' ''a''
          \<lparr>files = [''final.csv'' \<mapsto> Merged \<lparr>columns = [''a'', ''b''],
                                             rows = [(5, [Some (1::real), None])]\<rparr>],
            stdout = []\<rparr>) \<noteq> Inl AssertionError"
proof -
  let ?df = "Merged \<lparr>columns = [''a'', ''b''], rows = [(5::int, [Some (1::real), None])]\<rparr>"
  let ?w = "\<lparr>files = [''final.csv'' \<mapsto> ?df], stdout = []\<rparr>"
  let ?three = "[(''raw_data/a.csv'', []), (''raw_data/b.csv'', []), (''raw_data/c.csv'', [])]
                 :: (string \<times> (int \<times> real option) list) list"
  let ?two = "[(''raw_data/a.csv'', []), (''raw_data/b.csv'', [])]
               :: (string \<times> (int \<times> real option) list) list"
  have h: "files ?w ''final.csv'' = Some ?df" by simp
  have "csv_width ?df \<noteq> length ?three + 1" by simp
  with process_dataframe_column_count_assertion [OF h, of int64_limits ?three "''a''"]
  have bad: "fst (process_dataframe int64_limits ?three ''final.csv'' ''a'' ?w)
      = Inl AssertionError"
    by blast
  have "\<not> csv_width ?df \<noteq> length ?two + 1" by simp
  with process_dataframe_column_count_assertion [OF h, of int64_limits ?two "''a''"]
  have good: "fst (process_dataframe int64_limits ?two ''final.csv'' ''a'' ?w)
      \<noteq> Inl AssertionError"
    by blast
  from bad good show ?thesis by blast
qed

text \<open>
  Claim C7. Trimming is idempotent: trimming the table that the trimming of any table
  returned, with the same target column, returns that same table.
\<close>

theorem valid_range_trim_idempotent:
  assumes "valid_range_trim df pred_column = Inr df'"
  shows "valid_range_trim df' pred_column = Inr df'"
proof -
  from column_notna_cases [of df pred_column]
  show ?thesis
  proof
    assume "\<exists>e. \<forall>rs. column_notna (df\<lparr>rows := rs\<rparr>) pred_column = Inl e"
    then obtain e where "column_notna (df\<lparr>rows := rows df\<rparr>) pred_column = Inl e"
      by blast
    then have "valid_range_trim df pred_column = Inl e"
      by (simp add: valid_range_trim_def)
    with assms show ?thesis by simp
  next
    assume "\<exists>g. \<forall>rs. column_notna (df\<lparr>rows := rs\<rparr>) pred_column = Inr (map g rs)"
    then obtain g where
      g: "\<forall>rs. column_notna (df\<lparr>rows := rs\<rparr>) pred_column = Inr (map g rs)"
      by blast
    define rs1 where
      "rs1 = (case first_valid_index (map g (rows df)) of
                Some i \<Rightarrow> drop i (rows df) | None \<Rightarrow> rows df)"
    define rs2 where
      "rs2 = (case last_valid_index (map g rs1) of Some j \<Rightarrow> take (Suc j) rs1 | None \<Rightarrow> rs1)"
    have "valid_range_trim (df\<lparr>rows := rows df\<rparr>) pred_column = Inr (df\<lparr>rows := rs2\<rparr>)"
      unfolding rs2_def rs1_def by (rule valid_range_trim_rows [OF g])
    with assms have df': "df' = df\<lparr>rows := rs2\<rparr>" by simp
    have s1: "(case first_valid_index (map g rs2) of
                 Some i \<Rightarrow> drop i rs2 | None \<Rightarrow> rs2) = rs2"
      unfolding rs2_def rs1_def by (rule trim_rows_stable(1))
    have s2: "(case last_valid_index (map g rs2) of
                 Some j \<Rightarrow> take (Suc j) rs2 | None \<Rightarrow> rs2) = rs2"
      unfolding rs2_def rs1_def by (rule trim_rows_stable(2))
    have "valid_range_trim (df\<lparr>rows := rs2\<rparr>) pred_column = Inr (df\<lparr>rows := rs2\<rparr>)"
      by (simp only: valid_range_trim_rows [OF g] s1 s2)
    with df' show ?thesis by simp
  qed
qed

text \<open>
  A table whose target column \<open>A\<close> starts and ends with a gap and has one inside:
  the first trimming drops the two outer rows and keeps the inner gap.
\<close>

theorem valid_range_trim_idempotent_witness:
  "valid_range_trim
     \<lparr>columns = [''A'', ''B''],
      rows = [(0, [None, Some (1::real)]), (1, [Some 2, None]), (2, [None, None]),
              (3, [Some 1, None]), (4, [None, Some 3])]\<rparr> ''A''
     = Inr \<lparr>columns = [''A'', ''B''],
            rows = [(1, [Some 2, None]), (2, [None, None]), (3, [Some 1, None])]\<rparr>
   \<and> valid_range_trim
       \<lparr>columns = [''A'', ''B''],
        rows = [(1, [Some (2::real), None]), (2, [None, None]), (3, [Some 1, None])]\<rparr> ''A''
     = Inr \<lparr>columns = [''A'', ''B''],
            rows = [(1, [Some 2, None]), (2, [None, None]), (3, [Some 1, None])]\<rparr>"
proof -
  have first: "valid_range_trim
     \<lparr>columns = [''A'', ''B''],
      rows = [(0, [None, Some (1::real)]), (1, [Some 2, None]), (2, [None, None]),
              (3, [Some 1, None]), (4, [None, Some 3])]\<rparr> ''A''
     = Inr \<lparr>columns = [''A'', ''B''],
            rows = [(1, [Some 2, None]), (2, [None, None]), (3, [Some 1, None])]\<rparr>"
    by (simp add: trim_eval)
  from first valid_range_trim_idempotent [OF first] show ?thesis
    by (rule conjI)
qed

section \<open>Properties of the Aggregator\<close>

lemma div_eq_iff_bounds:
  fixes x w m :: int
  assumes "0 < w"
  shows "(x div w = m) = (m * w \<le> x \<and> x < m * w + w)"
proof
  assume "x div w = m"
  then have m: "m = x div w" by simp
  have "x div w * w + x mod w = x" by simp
  moreover have "0 \<le> x mod w" "x mod w < w" using assms by simp_all
  ultimately show "m * w \<le> x \<and> x < m * w + w"
    unfolding m by linarith
next
  assume b: "m * w \<le> x \<and> x < m * w + w"
  have "x = w * m + (x - m * w)" by (simp add: mult.commute)
  moreover from b have "0 \<le> x - m * w" "x - m * w < w" by simp_all
  ultimately show "x div w = m" by (rule int_div_pos_eq)
qed

text \<open>A row falls into the bin that starts at \<open>origin + m * w\<close> exactly when its
  instant lies in the interval of width \<open>w\<close> that starts there.\<close>

lemma bucket_start_eq:
  assumes "0 < w"
  shows "(bucket_start origin w t = origin + m * w)
           = (origin + m * w \<le> t \<and> t < origin + m * w + w)"
proof -
  have "(bucket_start origin w t = origin + m * w) = ((t - origin) div w = m)"
    using assms by (simp add: bucket_start_def)
  also have "\<dots> = (m * w \<le> t - origin \<and> t - origin < m * w + w)"
    by (rule div_eq_iff_bounds [OF assms])
  also have "\<dots> = (origin + m * w \<le> t \<and> t < origin + m * w + w)"
    by auto
  finally show ?thesis .
qed

lemma bucket_values_contributing:
  assumes "0 < w"
  shows "bucket_values origin w table (origin + m * w) i
           = contributing w table (origin + m * w) i"
  unfolding bucket_values_def contributing_def
  by (simp only: bucket_start_eq [OF assms])

lemma agg_empty: "agg_mean [] = None" "agg_std [] = None"
  by (simp_all add: agg_mean_def agg_std_def)

lemma agg_single: "agg_mean [v] = Some v" "agg_std [v] = None"
  by (simp_all add: agg_mean_def agg_std_def)

lemmas resample_eval = resample_agg_def start_day_def bucket_start_def bucket_values_def
  cell_def agg_mean_def agg_std_def upt_rec [of _ "numeral _"] upt_rec [of _ "Suc _"] Let_def

text \<open>
  Claim C3. For a positive bin width, take any row of the aggregated table (a bin
  start \<open>b\<close> with its cells) and any channel \<open>i\<close>. If no present value of the channel
  lies in a row of the bin \<open>[b, b + w)\<close>, the mean and the standard deviation are both
  missing. If exactly one present value \<open>v\<close> does, the mean is \<open>v\<close> and the standard
  deviation is missing.
\<close>

theorem resample_agg_zero_or_one_value:
  assumes "0 < w" and "(b, cells) \<in> set (resample_agg w ncols table)" and "i < ncols"
  shows "(contributing w table b i = [] \<longrightarrow> cells ! i = (None, None))
       \<and> (\<forall>v. contributing w table b i = [v] \<longrightarrow> cells ! i = (Some v, None))"
proof -
  from assms(2) obtain t ts where ts: "map fst table = t # ts"
    by (cases "map fst table") (auto simp: resample_agg_def)
  define origin where "origin = start_day (foldl min t ts)"
  define first where "first = bucket_start origin w (foldl min t ts)"
  define n where "n = nat ((bucket_start origin w (foldl max t ts) - first) div w) + 1"
  have "resample_agg w ncols table =
          map (\<lambda>k. (first + int k * w,
                     map (\<lambda>i. (agg_mean (bucket_values origin w table (first + int k * w) i),
                               agg_std (bucket_values origin w table (first + int k * w) i)))
                         [0..<ncols]))
              [0..<n]"
    by (simp add: resample_agg_def ts Let_def origin_def first_def n_def)
  with assms(2) obtain k where
    b: "b = first + int k * w"
    and cells: "cells = map (\<lambda>i. (agg_mean (bucket_values origin w table b i),
                                   agg_std (bucket_values origin w table b i))) [0..<ncols]"
    by (auto simp del: upt_Suc)
  have "b = origin + ((foldl min t ts - origin) div w + int k) * w"
    by (simp add: b first_def bucket_start_def algebra_simps)
  then obtain m where m: "b = origin + m * w" by blast
  have "bucket_values origin w table b i = contributing w table b i"
    unfolding m by (rule bucket_values_contributing [OF assms(1)])
  moreover from cells assms(3) have
    "cells ! i = (agg_mean (bucket_values origin w table b i),
                  agg_std (bucket_values origin w table b i))"
    by simp
  ultimately have "cells ! i = (agg_mean (contributing w table b i),
                                agg_std (contributing w table b i))"
    by simp
  then show ?thesis by (auto simp: agg_empty agg_single)
qed

text \<open>
  Three-minute bins over one channel with a value at second \<open>1000\<close>, a missing cell
  at \<open>1010\<close> and a value at \<open>1500\<close>. The bins start at \<open>900\<close>, \<open>1080\<close>, \<open>1260\<close> and
  \<open>1440\<close>; the first holds one value, the second none.
\<close>

theorem resample_agg_zero_or_one_value_witness:
  "resample_agg 180 1 [(1000, [Some 1]), (1010, [None]), (1500, [Some 5])]
     = [(900, [(Some 1, None)]), (1080, [(None, None)]), (1260, [(None, None)]),
        (1440, [(Some 5, None)])]
   \<and> contributing 180 [(1000, [Some 1]), (1010, [None]), (1500, [Some 5])] 900 0 = [1]
   \<and> contributing 180 [(1000, [Some 1]), (1010, [None]), (1500, [Some 5])] 1080 0 = []
   \<and> [(Some (1::real), None :: real option)] ! 0 = (Some 1, None)
   \<and> [(None :: real option, None :: real option)] ! 0 = (None, None)"
proof -
  let ?table = "[(1000, [Some 1]), (1010, [None]), (1500, [Some 5])]
                 :: (int \<times> real option list) list"
  have run: "resample_agg 180 1 ?table
     = [(900, [(Some 1, None)]), (1080, [(None, None)]), (1260, [(None, None)]),
        (1440, [(Some 5, None)])]"
    by (simp add: resample_eval)
  have w: "(0::int) < 180" and i: "(0::nat) < 1" by simp_all
  have in1: "(900, [(Some 1, None)]) \<in> set (resample_agg 180 1 ?table)"
    and in2: "(1080, [(None, None)]) \<in> set (resample_agg 180 1 ?table)"
    unfolding run by simp_all
  have c1: "contributing 180 ?table 900 0 = [1]"
    and c2: "contributing 180 ?table 1080 0 = []"
    by (simp_all add: contributing_def cell_def)
  from resample_agg_zero_or_one_value [OF w in1 i] c1
  have one: "[(Some (1::real), None :: real option)] ! 0 = (Some 1, None)" by blast
  from resample_agg_zero_or_one_value [OF w in2 i] c2
  have none: "[(None :: real option, None :: real option)] ! 0 = (None, None)" by blast
  from run c1 c2 one none show ?thesis by blast
qed

section \<open>Properties of the coordinate conversion\<close>

lemma py_float_nonempty: "py_float s = Inr x \<Longrightarrow> s \<noteq> []"
  by (auto simp: py_float_def)

lemmas float_eval = py_float_def unsigned_decimal_def digits_value_def digit_value_def
  is_digit_def

text \<open>
  Claim C10. A missing input gives a missing output. A string is well formed when
  its first two characters read as a number, the degrees, and the characters from
  the third to the last but one read as a number, the minutes. For every such string
  the result is degrees plus minutes divided by sixty, negated exactly when the last
  character is \<open>S\<close> or \<open>W\<close>.
\<close>

theorem dms_string_to_decimal_value:
  assumes "py_float (take 2 s) = Inr degrees"
    and "py_float (drop 2 (butlast s)) = Inr minutes"
  shows "dms_string_to_decimal (Some s)
           = Inr (Some (if last s = CHR ''S'' \<or> last s = CHR ''W''
                        then - (degrees + minutes / 60)
                        else degrees + minutes / 60))
       \<and> dms_string_to_decimal None = Inr None"
proof -
  from py_float_nonempty [OF assms(1)] have "s \<noteq> []" by auto
  with assms show ?thesis
    by (simp add: dms_string_to_decimal_def Let_def)
qed

theorem dms_string_to_decimal_value_witness:
  "py_float (take 2 ''3723.2475S'') = Inr 37
   \<and> py_float (drop 2 (butlast ''3723.2475S'')) = Inr 23.2475
   \<and> dms_string_to_decimal (Some ''3723.2475S'') = Inr (Some (- (37 + 23.2475 / 60)))
   \<and> dms_string_to_decimal None = Inr None"
proof -
  have d: "py_float (take 2 ''3723.2475S'') = Inr 37"
    by (simp add: float_eval)
  have m: "py_float (drop 2 (butlast ''3723.2475S'')) = Inr 23.2475"
    by (simp add: float_eval)
  show ?thesis
    using d m dms_string_to_decimal_value [OF d m] by simp
qed

end
